theory Spec2Isabelle
  imports Main
begin

section \<open>The editor state read by the application\<close>

text \<open>
  The application (\<^verbatim>\<open>src/src/App.tsx\<close>) is one React component, \<^verbatim>\<open>App\<close>, that mounts a
  CodeMirror editor and draws a status bar. Of the editor it reads two things only:
  \<^verbatim>\<open>state.doc\<close>, the document text, and \<^verbatim>\<open>state.selection.main.head\<close>, the offset of
  the primary cursor in that text.
\<close>

record editor_state =
  doc :: string
  head :: nat

text \<open>
  \<^verbatim>\<open>doc.lineAt(pos)\<close> describes the line around an offset: where it starts and ends, its
  1-based number and its text. It raises \<^verbatim>\<open>RangeError\<close> for an offset outside the document.
\<close>

record line =
  line_from :: nat
  line_to :: nat
  number :: nat
  line_text :: string

datatype error = RangeError

definition lineAt :: "string \<Rightarrow> nat \<Rightarrow> error + line" where
  "lineAt d pos =
     (if length d < pos then Inl RangeError
      else
        let upto = take pos d;
            start = pos - length (takeWhile (\<lambda>c. c \<noteq> CHR ''\<newline>'') (rev upto));
            stop = pos + length (takeWhile (\<lambda>c. c \<noteq> CHR ''\<newline>'') (drop pos d))
        in Inr \<lparr>line_from = start, line_to = stop,
                number = 1 + length (filter (\<lambda>c. c = CHR ''\<newline>'') upto),
                line_text = take (stop - start) (drop start d)\<rparr>)"

text \<open>The update a listener is called with, and the DOM key event a handler is called with.\<close>

record view_update =
  docChanged :: bool
  selectionSet :: bool
  state :: editor_state

record key_event =
  key :: string

section \<open>The component \<^verbatim>\<open>App\<close>\<close>

text \<open>
  The state of the mounted component: the two \<^verbatim>\<open>useState\<close> cells \<^verbatim>\<open>vimMode\<close> (a string,
  initially \<^verbatim>\<open>'NORMAL'\<close>) and \<^verbatim>\<open>isSidebarOpen\<close> (initially false), and the state of the
  editor view created by the mount effect.
\<close>

record app =
  vimMode :: string
  isSidebarOpen :: bool
  view :: editor_state

definition setVimMode :: "string \<Rightarrow> app \<Rightarrow> app" where
  "setVimMode m w = w\<lparr>vimMode := m\<rparr>"

text \<open>The document literal given to \<^verbatim>\<open>EditorState.create\<close> (lines 26-27).\<close>

definition welcome_doc :: string where
  "welcome_doc =
     ''Welcome to VimDoc.\<newline>\<newline>This is a minimalist document editor with Vim keybindings.\<newline>\<newline>'' @
     ''Press 'i' to enter INSERT mode.\<newline>Press 'Esc' to return to NORMAL mode.\<newline>\<newline>'' @
     ''Try some Vim commands:\<newline>- 'dd' to delete a line\<newline>- 'u' to undo\<newline>- '/' to search\<newline>'' @
     ''- 'gg' to go to top\<newline>- 'G' to go to bottom\<newline>\<newline>Enjoy the focus.''"

text \<open>
  \<^verbatim>\<open>EditorState.create({doc: ..., extensions: ...})\<close>: the state starts with the given
  document and, no selection being given, with the cursor at offset 0.
\<close>

definition startState :: editor_state where
  "startState = \<lparr>doc = welcome_doc, head = 0\<rparr>"

text \<open>
  \<^verbatim>\<open>export default function App()\<close> declares no parameter: whatever properties React
  calls it with are ignored. \<open>App_mount\<close> is the component after its first render and its
  mount effect.
\<close>

type_synonym props = "string \<rightharpoonup> string"

definition App_mount :: "props \<Rightarrow> app" where
  "App_mount p = \<lparr>vimMode = ''NORMAL'', isSidebarOpen = False, view = startState\<rparr>"

subsection \<open>The update listener (lines 87-94)\<close>

text \<open>
  The listener computes the cursor offset and its line when the document or the selection
  changed, and stores neither: its comment reads
  \<^verbatim>\<open>// Update line/col info if we had state for it\<close>.
\<close>

definition updateListener :: "view_update \<Rightarrow> app \<Rightarrow> app" where
  "updateListener update w =
     (if docChanged update \<or> selectionSet update then
        (let pos = head (state update) in
         case lineAt (doc (state update)) pos of
           Inl e \<Rightarrow> w
         | Inr line \<Rightarrow> w)
      else w)"

subsection \<open>The key handler (lines 95-104)\<close>

text \<open>
  The handler is an arrow function that refers to the variable \<^verbatim>\<open>vimMode\<close> of the render in
  which it was created; that variable is its first argument here. Each call of
  \<^verbatim>\<open>setVimMode\<close> replaces the state cell; the three \<^verbatim>\<open>if\<close> statements run in order, and the
  handler returns \<^verbatim>\<open>false\<close>. Its second parameter, the view, is not used.
\<close>

definition keydown :: "string \<Rightarrow> key_event \<Rightarrow> editor_state \<Rightarrow> app \<Rightarrow> bool \<times> app" where
  "keydown vimMode_seen event v w0 =
     (let w1 = (if key event = ''Escape'' then setVimMode ''NORMAL'' w0 else w0);
          w2 = (if vimMode_seen = ''NORMAL'' \<and> (key event = ''i'' \<or> key event = ''a'')
                then setVimMode ''INSERT'' w1 else w1);
          w3 = (if vimMode_seen = ''NORMAL'' \<and> key event = ''v''
                then setVimMode ''VISUAL'' w2 else w2)
      in (False, w3))"

text \<open>
  The handler is created inside \<^verbatim>\<open>useEffect(() => {...}, [])\<close>. With the empty dependency
  list the effect runs once, after the first render, so the handler the editor keeps for
  its whole life is the one that closes over the \<^verbatim>\<open>vimMode\<close> of the first render. Later
  renders bind a new \<^verbatim>\<open>vimMode\<close>, which the status bar shows, and create no new handler.
\<close>

definition installed_keydown :: "key_event \<Rightarrow> editor_state \<Rightarrow> app \<Rightarrow> bool \<times> app" where
  "installed_keydown = keydown (vimMode (App_mount Map.empty))"

text \<open>The application state after the handler has run on a key event.\<close>

definition press :: "key_event \<Rightarrow> app \<Rightarrow> app" where
  "press event w = snd (installed_keydown event (view w) w)"

subsection \<open>A key event through the editor\<close>

text \<open>
  The editor offers a key event to its extensions in the order of the extension list. The
  vim extension comes first (line 29) and the handler of the application last (line 95).
  An extension that consumes the event prevents its default, and the editor then calls no
  later handler: the handler of the application runs on the events that the extensions
  before it leave alone. What those extensions do is not in the source and is the parameter
  \<open>ext\<close>: from the event, its own state (for the vim extension, its mode) and the editor
  state it answers whether the event is consumed, its next state, and the editor state
  once the event has been dealt with. No extension holds \<^verbatim>\<open>setVimMode\<close>, and the handler
  does not read the editor state. The update listener is called with the resulting editor
  state; it only tests the two flags of the update, which are set here when the document
  or the cursor differ from before.
\<close>

type_synonym 'x extension = "key_event \<Rightarrow> 'x \<Rightarrow> editor_state \<Rightarrow> bool \<times> 'x \<times> editor_state"

definition dispatch :: "'x extension \<Rightarrow> key_event \<Rightarrow> 'x \<Rightarrow> app \<Rightarrow> 'x \<times> app" where
  "dispatch ext event x w =
     (case ext event x (view w) of
        (consumed, x', v') \<Rightarrow>
          let w1 = (if consumed then w else snd (installed_keydown event (view w) w));
              w2 = w1\<lparr>view := v'\<rparr>
          in (x', updateListener
                    \<lparr>docChanged = (doc v' \<noteq> doc (view w)),
                     selectionSet = (head v' \<noteq> head (view w)),
                     state = v'\<rparr> w2))"

fun run :: "'x extension \<Rightarrow> 'x \<Rightarrow> key_event list \<Rightarrow> app \<Rightarrow> app" where
  "run ext x [] w = w"
| "run ext x (event # events) w =
     (case dispatch ext event x w of (x', w') \<Rightarrow> run ext x' events w')"

text \<open>
  A run of the editor written out as data: the extension \<open>scripted\<close> answers each key
  event with the next entry of a list, which says whether the event was consumed and what
  the editor state is afterwards.
\<close>

fun scripted :: "(bool \<times> editor_state) list extension" where
  "scripted event [] v = (False, [], v)"
| "scripted event (answer # answers) v = (fst answer, answers, snd answer)"

subsection \<open>The status bar (lines 195-219)\<close>

text \<open>
  The footer shows the mode label, coloured by mode, and the text \<^verbatim>\<open>Line 1, Col 1\<close>, which is
  a literal of the JSX.
\<close>

record status_bar =
  mode_class :: string
  mode_label :: string
  position_label :: string

definition footer :: "app \<Rightarrow> status_bar" where
  "footer w =
     \<lparr>mode_class =
        (if vimMode w = ''INSERT'' then ''bg-blue-600 text-white''
         else if vimMode w = ''VISUAL'' then ''bg-amber-500 text-white''
         else ''bg-black text-white''),
      mode_label = vimMode w,
      position_label = ''Line 1, Col 1''\<rparr>"

section \<open>Facts about the handler and the listener\<close>

lemma updateListener_id: "updateListener u w = w"
  by (simp add: updateListener_def Let_def split: sum.split)

lemma installed_keydown_sees_NORMAL: "installed_keydown = keydown ''NORMAL''"
  by (simp add: installed_keydown_def App_mount_def)

lemma vimMode_press:
  "vimMode (press event w) =
     (if key event = ''v'' then ''VISUAL''
      else if key event = ''i'' \<or> key event = ''a'' then ''INSERT''
      else if key event = ''Escape'' then ''NORMAL''
      else vimMode w)"
  by (auto simp add: press_def installed_keydown_sees_NORMAL keydown_def setVimMode_def Let_def)

text \<open>
  A handler closing over a mode other than \<^verbatim>\<open>'NORMAL'\<close> would react to Escape alone: the two
  guards of the source do what they say for the \<^verbatim>\<open>vimMode\<close> they read.
\<close>

lemma keydown_guard:
  "vimMode_seen \<noteq> ''NORMAL'' \<Longrightarrow>
   vimMode (snd (keydown vimMode_seen event v w)) =
     (if key event = ''Escape'' then ''NORMAL'' else vimMode w)"
  by (simp add: keydown_def setVimMode_def Let_def)

lemma view_press: "view (press event w) = view w"
  by (simp add: press_def installed_keydown_sees_NORMAL keydown_def setVimMode_def Let_def)

lemma dispatch_eq:
  "dispatch ext event x w =
     (case ext event x (view w) of
        (consumed, x', v') \<Rightarrow> (x', (if consumed then w else press event w)\<lparr>view := v'\<rparr>))"
  by (simp add: dispatch_def press_def updateListener_id Let_def split: prod.split)

text \<open>
  A consumed event leaves the mode label as it is; on any other event the label is the
  one the handler leaves.
\<close>

lemma vimMode_dispatch:
  "vimMode (snd (dispatch ext event x w)) =
     (if fst (ext event x (view w)) then vimMode w else vimMode (press event w))"
  by (simp add: dispatch_eq split: prod.split)

lemma vimMode_run_invariant:
  "vimMode w \<in> {''NORMAL'', ''INSERT'', ''VISUAL''} \<Longrightarrow>
   vimMode (run ext x events w) \<in> {''NORMAL'', ''INSERT'', ''VISUAL''}"
proof (induction events arbitrary: x w)
  case Nil
  then show ?case by simp
next
  case (Cons event events)
  obtain x' w' where step: "dispatch ext event x w = (x', w')"
    by (cases "dispatch ext event x w")
  have "vimMode (snd (dispatch ext event x w)) \<in> {''NORMAL'', ''INSERT'', ''VISUAL''}"
    using Cons.prems by (simp add: vimMode_dispatch vimMode_press)
  then have "vimMode w' \<in> {''NORMAL'', ''INSERT'', ''VISUAL''}"
    by (simp add: step)
  then have "vimMode (run ext x' events w') \<in> {''NORMAL'', ''INSERT'', ''VISUAL''}"
    by (rule Cons.IH)
  then show ?case
    by (simp add: step)
qed

section \<open>The claims\<close>

text \<open>
  C1 (the code departs from it). Claimed: a key is read in the mode current when it is
  pressed, so \<^verbatim>\<open>v\<close> leads to Visual, and \<^verbatim>\<open>i\<close> or \<^verbatim>\<open>a\<close> to Insert, from Normal only. The
  installed handler tests the \<^verbatim>\<open>vimMode\<close> of the first render, which stays \<^verbatim>\<open>'NORMAL'\<close>:
  after \<^verbatim>\<open>i\<close> the mode is INSERT, and \<^verbatim>\<open>v\<close> pressed then makes it VISUAL. (The handler runs
  on these two events when the keys typed are \<^verbatim>\<open>i\<close>, \<^verbatim>\<open>i\<close>, \<^verbatim>\<open>v\<close>: the vim extension consumes
  the first and, then in its insert mode, leaves the other two alone.)
\<close>

theorem C1_v_in_INSERT_gives_VISUAL:
  "vimMode (press \<lparr>key = ''i''\<rparr> (App_mount Map.empty)) = ''INSERT'' \<and>
   vimMode (press \<lparr>key = ''v''\<rparr> (press \<lparr>key = ''i''\<rparr> (App_mount Map.empty))) = ''VISUAL''"
  by (simp add: vimMode_press)

text \<open>
  C2 (the code departs from it). Claimed: in Normal mode each of \<^verbatim>\<open>i\<close>, \<^verbatim>\<open>a\<close>, \<^verbatim>\<open>o\<close> leads to
  Insert. The handler names \<^verbatim>\<open>i\<close> and \<^verbatim>\<open>a\<close> and not \<^verbatim>\<open>o\<close>: from the initial state, which is
  NORMAL, \<^verbatim>\<open>i\<close> and \<^verbatim>\<open>a\<close> give INSERT and \<^verbatim>\<open>o\<close> leaves NORMAL.
\<close>

theorem C2_o_leaves_NORMAL:
  "vimMode (App_mount Map.empty) = ''NORMAL'' \<and>
   vimMode (press \<lparr>key = ''i''\<rparr> (App_mount Map.empty)) = ''INSERT'' \<and>
   vimMode (press \<lparr>key = ''a''\<rparr> (App_mount Map.empty)) = ''INSERT'' \<and>
   vimMode (press \<lparr>key = ''o''\<rparr> (App_mount Map.empty)) = ''NORMAL''"
  by (simp add: vimMode_press) (simp add: App_mount_def)

text \<open>
  C3 (the code departs from it). Claimed: after every key event the displayed line and
  column equal the cursor position. With the cursor moved to offset 20 of the initial
  document, the start of line 3, the listener is told of the new selection, and the status
  bar still reads \<^verbatim>\<open>Line 1, Col 1\<close>.
\<close>

theorem C3_position_label_fixed:
  "lineAt welcome_doc 20 =
     Inr \<lparr>line_from = 20, line_to = 78, number = 3,
          line_text = ''This is a minimalist document editor with Vim keybindings.''\<rparr> \<and>
   position_label (footer (updateListener
       \<lparr>docChanged = False, selectionSet = True, state = \<lparr>doc = welcome_doc, head = 20\<rparr>\<rparr>
       ((App_mount Map.empty)\<lparr>view := \<lparr>doc = welcome_doc, head = 20\<rparr>\<rparr>))) = ''Line 1, Col 1''"
  by (simp add: lineAt_def welcome_doc_def Let_def footer_def)

text \<open>
  C4 (corrected). Claimed: in Normal mode \<^verbatim>\<open>R\<close> leads to Replace. The mode the program
  keeps is the label \<^verbatim>\<open>vimMode\<close>, and no branch of the handler reacts to \<^verbatim>\<open>R\<close>. What holds:
  with the label at NORMAL, a key event \<^verbatim>\<open>R\<close> leaves the label at NORMAL, whether the
  extensions before the handler consume the event or not.
\<close>

theorem C4_R_keeps_NORMAL:
  "vimMode w = ''NORMAL'' \<Longrightarrow> vimMode (snd (dispatch ext \<lparr>key = ''R''\<rparr> x w)) = ''NORMAL''"
  by (simp add: vimMode_dispatch vimMode_press)

text \<open>
  C4, the claim as stated fails: the initial label is NORMAL, and after \<^verbatim>\<open>R\<close> the label is
  not REPLACE, neither when the handler runs on the event nor when the vim extension
  consumes it, as it does for \<^verbatim>\<open>R\<close> in its normal mode.
\<close>

theorem C4_R_not_REPLACE_counterexample:
  "vimMode (App_mount Map.empty) = ''NORMAL'' \<and>
   vimMode (press \<lparr>key = ''R''\<rparr> (App_mount Map.empty)) \<noteq> ''REPLACE'' \<and>
   vimMode (snd (dispatch scripted \<lparr>key = ''R''\<rparr> [(True, startState)] (App_mount Map.empty)))
     \<noteq> ''REPLACE''"
  by (simp add: vimMode_press vimMode_dispatch) (simp add: App_mount_def)

theorem C4_R_keeps_NORMAL_witness:
  "vimMode (App_mount Map.empty) = ''NORMAL'' \<and>
   vimMode (snd (dispatch scripted \<lparr>key = ''R''\<rparr> [(True, startState)] (App_mount Map.empty)))
     = ''NORMAL''"
proof -
  have h: "vimMode (App_mount Map.empty) = ''NORMAL''"
    by (simp add: App_mount_def)
  show ?thesis
    using h C4_R_keeps_NORMAL [OF h, of scripted "[(True, startState)]"] by simp
qed

text \<open>
  C5 (the code departs from it). Claimed: pressing Escape in Insert, Visual or Replace
  mode leads to Normal. The handler sets NORMAL on Escape (line 99), but it runs only on
  events that the vim extension has not consumed. Keys \<^verbatim>\<open>i\<close>, \<^verbatim>\<open>i\<close>, Escape from the initial
  state: the first \<^verbatim>\<open>i\<close> is consumed (vim enters its insert mode), the second is typed into
  the text and reaches the handler, which sets INSERT, and Escape is consumed (vim leaves
  its insert mode and moves the cursor back): the label is INSERT before Escape and
  INSERT after it.
\<close>

theorem C5_Escape_consumed_label_stays:
  "vimMode (run scripted
      [(True, startState),
       (False, \<lparr>doc = ''i'' @ welcome_doc, head = 1\<rparr>)]
      [\<lparr>key = ''i''\<rparr>, \<lparr>key = ''i''\<rparr>] (App_mount Map.empty)) = ''INSERT'' \<and>
   vimMode (run scripted
      [(True, startState),
       (False, \<lparr>doc = ''i'' @ welcome_doc, head = 1\<rparr>),
       (True, \<lparr>doc = ''i'' @ welcome_doc, head = 0\<rparr>)]
      [\<lparr>key = ''i''\<rparr>, \<lparr>key = ''i''\<rparr>, \<lparr>key = ''Escape''\<rparr>] (App_mount Map.empty)) = ''INSERT''"
  by (simp add: dispatch_eq vimMode_press)

text \<open>
  C7 (corrected). Claimed: the initial document content equals whatever
  \<^verbatim>\<open>initialDocumentText\<close> is supplied at initialization. The component reads no such value.
  What holds: the initial document is the welcome text of the source, whatever is supplied.
\<close>

theorem C7_initial_doc_is_welcome_doc:
  "doc (view (App_mount p)) = welcome_doc"
  by (simp add: App_mount_def startState_def)

text \<open>
  C7, the claim as stated fails: with the text \<^verbatim>\<open>Hello\<close> supplied as
  \<^verbatim>\<open>initialDocumentText\<close>, the initial document is not \<^verbatim>\<open>Hello\<close>.
\<close>

theorem C7_supplied_text_ignored_counterexample:
  "doc (view (App_mount [''initialDocumentText'' \<mapsto> ''Hello''])) \<noteq> ''Hello''"
  by (simp add: App_mount_def startState_def welcome_doc_def)

text \<open>
  C8. At initialization, before any key event is processed, the mode is Normal.
\<close>

theorem C8_initial_mode_NORMAL:
  "vimMode (App_mount p) = ''NORMAL'' \<and> vimMode (run ext x [] (App_mount p)) = ''NORMAL''"
  by (simp add: App_mount_def)

text \<open>
  C9. Whatever sequence of key events is processed, and whatever the other extensions
  consume or do to the editor, \<^verbatim>\<open>vimMode\<close> is one of NORMAL, INSERT and VISUAL; it is never
  REPLACE.
\<close>

theorem C9_vimMode_three_values:
  "vimMode (run ext x events (App_mount p)) \<in> {''NORMAL'', ''INSERT'', ''VISUAL''} \<and>
   vimMode (run ext x events (App_mount p)) \<noteq> ''REPLACE''"
proof -
  have "vimMode (App_mount p) \<in> {''NORMAL'', ''INSERT'', ''VISUAL''}"
    by (simp add: App_mount_def)
  then have "vimMode (run ext x events (App_mount p)) \<in> {''NORMAL'', ''INSERT'', ''VISUAL''}"
    by (rule vimMode_run_invariant)
  then show ?thesis by auto
qed

text \<open>
  C10. The handler returns false for every key event, whichever \<^verbatim>\<open>vimMode\<close> it closes
  over, and changes nothing but \<^verbatim>\<open>vimMode\<close>: the document and the cursor are as before.
\<close>

theorem C10_keydown_frame:
  "fst (keydown m event v w) = False \<and>
   snd (keydown m event v w) = w\<lparr>vimMode := vimMode (snd (keydown m event v w))\<rparr> \<and>
   doc (view (snd (keydown m event v w))) = doc (view w) \<and>
   head (view (snd (keydown m event v w))) = head (view w)"
  by (simp add: keydown_def setVimMode_def Let_def)

end
